theory Spec2Isabelle
  imports Main
begin

section \<open>Cooking assistant: messages, nodes, router, graph and endpoint\<close>

text \<open>
  A shallow embedding of \<^verbatim>\<open>backend/agents/cooking_assistant.py\<close>. The language model,
  the ReAct agent executor and the classifier prompt are parameters (record \<open>env\<close>);
  every call made to them is written into a list of events, so that what a node sends
  out can be stated. Exceptions are values: a node returns \<open>exn + update\<close>.
\<close>

subsection \<open>Exceptions\<close>

text \<open>
  An exception is its class together with the text that \<^verbatim>\<open>str(e)\<close> gives. Only
  subclasses of \<^verbatim>\<open>Exception\<close> are meant: these are what \<^verbatim>\<open>except Exception\<close> catches.
  \<open>UpstreamError\<close> stands for whatever an external collaborator raises.
\<close>

datatype exn_class = IndexError | KeyError | GraphRecursionError | UpstreamError

datatype exn = Exn exn_class (str: string)

definition index_error :: exn where
  "index_error = Exn IndexError ''list index out of range''"

definition key_error :: "string \<Rightarrow> exn" where
  "key_error k = Exn KeyError ([CHR 0x27] @ k @ [CHR 0x27])"

definition recursion_error :: exn where
  "recursion_error = Exn GraphRecursionError ''Recursion limit reached without hitting a stop condition''"

subsection \<open>Python primitives\<close>

text \<open>
  \<^verbatim>\<open>xs[i]\<close>: a negative index counts from the end, an index out of range raises
  IndexError.
\<close>

definition py_index :: "'a list \<Rightarrow> int \<Rightarrow> exn + 'a" where
  "py_index xs i =
     (if 0 \<le> i
      then (if i < int (length xs) then Inr (xs ! nat i) else Inl index_error)
      else (if - i \<le> int (length xs) then Inr (xs ! nat (int (length xs) + i))
            else Inl index_error))"

text \<open>
  \<^verbatim>\<open>str.lower()\<close>, on the letters A to Z. The source only compares the lowered text
  with the ASCII literals \<^verbatim>\<open>"relevant"\<close> and \<^verbatim>\<open>"irrelevant"\<close>; no character outside
  ASCII lowers to text made of the letters of these two words, so the comparison has
  the same outcome as with Python's full Unicode lowering.
\<close>

definition lower_char :: "char \<Rightarrow> char" where
  "lower_char c =
     (let n = (of_char c :: nat)
      in if 65 \<le> n \<and> n \<le> 90 then char_of (n + 32) else c)"

definition lower :: "string \<Rightarrow> string" where
  "lower s = map lower_char s"

subsection \<open>Messages and the LangGraph state\<close>

text \<open>
  Modelled from the spec: the message classes of \<^verbatim>\<open>langchain_core.messages\<close> are
  imported, not defined, by the source. The spec's data model gives a message a role,
  one of system, user and assistant, and a text content; the constructors carry the
  names of the classes the source uses.
\<close>

datatype message =
    SystemMessage (content: string)
  | HumanMessage (content: string)
  | AIMessage (content: string)

record State =
  messages :: "message list"

text \<open>
  The reducer \<^verbatim>\<open>add_messages\<close> named in the annotation of \<^verbatim>\<open>State.messages\<close>: a
  node's update is appended to the list. (The library merges by message id; every
  message here is new, with an id of its own.)
\<close>

definition add_messages :: "message list \<Rightarrow> message list \<Rightarrow> message list" where
  "add_messages left right = left @ right"

subsection \<open>External collaborators and what is sent to them\<close>

record agent_input =
  input :: string
  chat_history :: string

record env =
  llm :: "message list \<Rightarrow> exn + message"
  agent_executor_researcher :: "agent_input \<Rightarrow> exn + string"
  system_prompt_classifier :: string

datatype event =
    Log_messages "message list"
  | Log_response message
  | LLM_invoke "message list"
  | Agent_invoke agent_input

fun is_external_call :: "event \<Rightarrow> bool" where
  "is_external_call (LLM_invoke ms) = True"
| "is_external_call (Agent_invoke a) = True"
| "is_external_call (Log_messages ms) = False"
| "is_external_call (Log_response m) = False"

subsection \<open>LangGraph nodes\<close>

text \<open>
  A node returns the events it caused, in order, and either the exception it raised or
  its update \<^verbatim>\<open>{"messages": [...]}\<close>, the list of messages to append.
\<close>

type_synonym node_result = "event list \<times> (exn + message list)"

definition classifier_agent :: "env \<Rightarrow> State \<Rightarrow> node_result" where
  "classifier_agent e state =
     (let system_message = SystemMessage (system_prompt_classifier e);
          messages_with_system = [system_message] @ messages state
      in case llm e messages_with_system of
           Inl ex \<Rightarrow>
             ([Log_messages messages_with_system, LLM_invoke messages_with_system], Inl ex)
         | Inr response_classifier \<Rightarrow>
             ([Log_messages messages_with_system, LLM_invoke messages_with_system,
               Log_response response_classifier],
              Inr [response_classifier]))"

definition refusal :: "State \<Rightarrow> node_result" where
  "refusal state = ([], Inr [AIMessage ''Your Query is not related to Cooking.''])"

definition researcher_agent :: "env \<Rightarrow> State \<Rightarrow> node_result" where
  "researcher_agent e state =
     (case py_index (messages state) (- 2) of
        Inl ex \<Rightarrow> ([], Inl ex)
      | Inr m \<Rightarrow>
          (let user_input = content m;
               request = \<lparr>input = user_input, chat_history = ''''\<rparr>
           in case agent_executor_researcher e request of
                Inl ex \<Rightarrow> ([Agent_invoke request], Inl ex)
              | Inr output \<Rightarrow> ([Agent_invoke request], Inr [AIMessage output])))"

definition decide_next_node :: "State \<Rightarrow> exn + string" where
  "decide_next_node state =
     (case py_index (messages state) (- 1) of
        Inl ex \<Rightarrow> Inl ex
      | Inr last_message \<Rightarrow>
          (case last_message of
             AIMessage c \<Rightarrow>
               (if lower c = ''relevant'' then Inr ''researcher_agent''
                else if lower c = ''irrelevant'' then Inr ''refusal''
                else Inr ''refusal'')
           | SystemMessage c \<Rightarrow> Inr ''refusal''
           | HumanMessage c \<Rightarrow> Inr ''refusal''))"

subsection \<open>LangGraph construction\<close>

record graph_def =
  nodes :: "(string \<times> (State \<Rightarrow> node_result)) list"
  edges :: "(string \<times> string) list"
  branches :: "(string \<times> (State \<Rightarrow> exn + string) \<times> (string \<times> string) list) list"

definition START :: string where
  "START = ''__start__''"

definition END :: string where
  "END = ''__end__''"

definition StateGraph :: graph_def where
  "StateGraph = \<lparr>nodes = [], edges = [], branches = []\<rparr>"

definition add_node :: "string \<Rightarrow> (State \<Rightarrow> node_result) \<Rightarrow> graph_def \<Rightarrow> graph_def" where
  "add_node name f g = g\<lparr>nodes := nodes g @ [(name, f)]\<rparr>"

definition add_edge :: "string \<Rightarrow> string \<Rightarrow> graph_def \<Rightarrow> graph_def" where
  "add_edge a b g = g\<lparr>edges := edges g @ [(a, b)]\<rparr>"

definition add_conditional_edges ::
  "string \<Rightarrow> (State \<Rightarrow> exn + string) \<Rightarrow> (string \<times> string) list \<Rightarrow> graph_def \<Rightarrow> graph_def" where
  "add_conditional_edges a path path_map g = g\<lparr>branches := branches g @ [(a, path, path_map)]\<rparr>"

text \<open>The mapping given to \<^verbatim>\<open>add_conditional_edges\<close>, in the order of the source.\<close>

definition path_map :: "(string \<times> string) list" where
  "path_map = [(''researcher_agent'', ''researcher_agent''), (''refusal'', ''refusal'')]"

text \<open>The builder calls of the source, applied in their order to the empty graph.\<close>

definition graph_builder :: "env \<Rightarrow> graph_def" where
  "graph_builder e =
     fold (\<lambda>call g. call g)
       [add_node ''classifier_agent'' (classifier_agent e),
        add_node ''refusal'' refusal,
        add_node ''researcher_agent'' (researcher_agent e),
        add_edge START ''classifier_agent'',
        add_conditional_edges ''classifier_agent'' decide_next_node path_map,
        add_edge ''researcher_agent'' END,
        add_edge ''refusal'' END]
       StateGraph"

definition graph :: "env \<Rightarrow> graph_def" where
  "graph e = graph_builder e"

text \<open>
  The transitions a graph allows: its plain edges, and for each conditional edge one
  transition from its source to every target of its mapping.
\<close>

definition static_edges :: "graph_def \<Rightarrow> (string \<times> string) list" where
  "static_edges g =
     edges g @
     concat (map (\<lambda>(a, path, pmap). map (\<lambda>(label, target). (a, target)) pmap) (branches g))"

subsection \<open>Running a compiled graph\<close>

text \<open>
  The engine behind \<^verbatim>\<open>graph.invoke\<close> is the library's. It is modelled for graphs in
  which one node is active at a time, as here: after a node has run and its update has
  gone through the reducer, the node's conditional edge (the router's label looked up
  in the mapping) or else its plain edge names the next node; reaching \<open>END\<close> finishes
  the run, an exception in a node or in the router ends it at once, and the run is cut
  off with an error after \<open>recursion_limit\<close> steps, LangGraph's default of 25.
  An execution records the nodes that ran, the events, and the outcome.
\<close>

record execution =
  visited :: "string list"
  events :: "event list"
  outcome :: "exn + State"

definition recursion_limit :: nat where
  "recursion_limit = 25"

definition successor :: "graph_def \<Rightarrow> string \<Rightarrow> State \<Rightarrow> exn + string" where
  "successor g n st =
     (case map_of (branches g) n of
        Some (path, pmap) \<Rightarrow>
          (case path st of
             Inl ex \<Rightarrow> Inl ex
           | Inr label \<Rightarrow>
               (case map_of pmap label of
                  None \<Rightarrow> Inl (key_error label)
                | Some target \<Rightarrow> Inr target))
      | None \<Rightarrow>
          (case map_of (edges g) n of
             None \<Rightarrow> Inr END
           | Some target \<Rightarrow> Inr target))"

fun run_from :: "graph_def \<Rightarrow> nat \<Rightarrow> string \<Rightarrow> State \<Rightarrow> execution" where
  "run_from g fuel n st =
     (if n = END then \<lparr>visited = [], events = [], outcome = Inr st\<rparr>
      else
        (case fuel of
           0 \<Rightarrow> \<lparr>visited = [], events = [], outcome = Inl recursion_error\<rparr>
         | Suc fuel' \<Rightarrow>
             (case map_of (nodes g) n of
                None \<Rightarrow> \<lparr>visited = [], events = [], outcome = Inl (key_error n)\<rparr>
              | Some f \<Rightarrow>
                  (case f st of
                     (evs, Inl ex) \<Rightarrow> \<lparr>visited = [n], events = evs, outcome = Inl ex\<rparr>
                   | (evs, Inr upd) \<Rightarrow>
                       (let st' = st\<lparr>messages := add_messages (messages st) upd\<rparr>
                        in case successor g n st' of
                             Inl ex \<Rightarrow> \<lparr>visited = [n], events = evs, outcome = Inl ex\<rparr>
                           | Inr n' \<Rightarrow>
                               (let r = run_from g fuel' n' st'
                                in r\<lparr>visited := n # visited r,
                                     events := evs @ events r\<rparr>))))))"

definition invoke :: "graph_def \<Rightarrow> message list \<Rightarrow> execution" where
  "invoke g input_messages =
     (let st = \<lparr>messages = add_messages [] input_messages\<rparr>
      in case successor g START st of
           Inl ex \<Rightarrow> \<lparr>visited = [], events = [], outcome = Inl ex\<rparr>
         | Inr n \<Rightarrow> run_from g recursion_limit n st)"

subsection \<open>The FastAPI endpoint\<close>

text \<open>
  The handler returns the dictionary \<^verbatim>\<open>{"response": c}\<close> or raises
  \<^verbatim>\<open>HTTPException(status_code=500, detail=str(e))\<close>. The user message is given to
  \<^verbatim>\<open>graph.invoke\<close> as a dictionary with role \<^verbatim>\<open>"user"\<close>, which the reducer turns into a
  \<open>HumanMessage\<close>.
\<close>

datatype http_exception = HTTPException nat string

datatype json_body = Response_body string | Detail_body string

definition cooking_endpoint :: "env \<Rightarrow> string \<Rightarrow> http_exception + json_body" where
  "cooking_endpoint e query =
     (case outcome (invoke (graph e) [HumanMessage query]) of
        Inl ex \<Rightarrow> Inl (HTTPException 500 (str ex))
      | Inr result \<Rightarrow>
          (case py_index (messages result) (- 1) of
             Inl ex \<Rightarrow> Inl (HTTPException 500 (str ex))
           | Inr m \<Rightarrow> Inr (Response_body (content m))))"

text \<open>
  Modelled from the spec: the framework's conversion of the handler's result into an
  HTTP response is not in the source. Section 6 of the spec gives it: a returned body
  is a 200 response, a raised \<open>HTTPException\<close> is a response with its status code and
  the body \<^verbatim>\<open>{"detail": d}\<close>.
\<close>

record http_response =
  status_code :: nat
  body :: json_body

definition post_api_cooking :: "env \<Rightarrow> string \<Rightarrow> http_response" where
  "post_api_cooking e query =
     (case cooking_endpoint e query of
        Inr b \<Rightarrow> \<lparr>status_code = 200, body = b\<rparr>
      | Inl (HTTPException code detail) \<Rightarrow> \<lparr>status_code = code, body = Detail_body detail\<rparr>)"

subsection \<open>Concrete collaborators for examples\<close>

definition relevant_env :: env where
  "relevant_env =
     \<lparr>llm = (\<lambda>ms. Inr (AIMessage ''Relevant'')),
      agent_executor_researcher =
        (\<lambda>a. Inr ''Place egg in boiling water for 7 minutes.''),
      system_prompt_classifier = ''Classify the query.''\<rparr>"

definition irrelevant_env :: env where
  "irrelevant_env =
     \<lparr>llm = (\<lambda>ms. Inr (AIMessage ''irrelevant'')),
      agent_executor_researcher =
        (\<lambda>a. Inr ''Place egg in boiling water for 7 minutes.''),
      system_prompt_classifier = ''Classify the query.''\<rparr>"

definition failing_env :: env where
  "failing_env =
     \<lparr>llm = (\<lambda>ms. Inl (Exn UpstreamError ''Connection error.'')),
      agent_executor_researcher =
        (\<lambda>a. Inr ''Place egg in boiling water for 7 minutes.''),
      system_prompt_classifier = ''Classify the query.''\<rparr>"

definition egg_state :: State where
  "egg_state = \<lparr>messages = [HumanMessage ''How do I boil an egg?'', AIMessage ''relevant'']\<rparr>"

definition empty_state :: State where
  "empty_state = \<lparr>messages = []\<rparr>"

section \<open>Properties\<close>

subsection \<open>Indexing and lowering\<close>

lemma py_index_snoc: "py_index (ms @ [m]) (- 1) = Inr m"
  by (simp add: py_index_def)

lemma py_index_second_last:
  "2 \<le> length xs \<Longrightarrow> py_index xs (- 2) = Inr (xs ! (length xs - 2))"
  by (simp add: py_index_def nat_diff_distrib')

lemma lower_examples:
  "lower ''Relevant'' = ''relevant''"
  "lower ''irrelevant'' = ''irrelevant''"
  "lower ''relevant'' = ''relevant''"
  "lower ''maybe?'' = ''maybe?''"
  by code_simp+

subsection \<open>The router\<close>

lemma decide_next_node_last:
  "messages st = ms @ [m] \<Longrightarrow>
   decide_next_node st =
     (case m of
        AIMessage c \<Rightarrow>
          if lower c = ''relevant'' then Inr ''researcher_agent'' else Inr ''refusal''
      | _ \<Rightarrow> Inr ''refusal'')"
  by (simp add: decide_next_node_def py_index_snoc split: message.splits)

text \<open>
  C1. On a state whose last message \<open>m\<close> is an \<open>AIMessage\<close>, the router selects
  \<open>researcher_agent\<close> exactly when the lowered content is \<open>relevant\<close>, selects
  \<open>refusal\<close> when it is \<open>irrelevant\<close>, and selects \<open>refusal\<close> for every other
  content; on a state whose last message is not an \<open>AIMessage\<close> it selects \<open>refusal\<close>.
\<close>

theorem decide_next_node_rule:
  assumes "messages st = ms @ [m]"
  shows "(\<forall>c. m = AIMessage c \<longrightarrow>
            ((decide_next_node st = Inr ''researcher_agent'') = (lower c = ''relevant'')) \<and>
            (lower c = ''irrelevant'' \<longrightarrow> decide_next_node st = Inr ''refusal'') \<and>
            (lower c \<noteq> ''relevant'' \<longrightarrow> decide_next_node st = Inr ''refusal''))
       \<and> ((\<forall>c. m \<noteq> AIMessage c) \<longrightarrow> decide_next_node st = Inr ''refusal'')"
  using decide_next_node_last [OF assms] by (cases m) auto

text \<open>
  C1 at four states: a verdict \<open>Relevant\<close> in mixed case, the verdict \<open>irrelevant\<close>,
  the verdict \<open>maybe?\<close>, and a state that ends with the user's message.
\<close>

theorem decide_next_node_rule_witness:
  "decide_next_node \<lparr>messages = [HumanMessage ''How do I boil an egg?'', AIMessage ''Relevant'']\<rparr>
     = Inr ''researcher_agent''
   \<and> decide_next_node \<lparr>messages = [HumanMessage ''Capital of France?'', AIMessage ''irrelevant'']\<rparr>
     = Inr ''refusal''
   \<and> decide_next_node \<lparr>messages = [HumanMessage ''Capital of France?'', AIMessage ''maybe?'']\<rparr>
     = Inr ''refusal''
   \<and> decide_next_node \<lparr>messages = [HumanMessage ''How do I boil an egg?'']\<rparr> = Inr ''refusal''"
  using
    decide_next_node_rule [of "\<lparr>messages = [HumanMessage ''How do I boil an egg?'', AIMessage ''Relevant'']\<rparr>"
      "[HumanMessage ''How do I boil an egg?'']" "AIMessage ''Relevant''"]
    decide_next_node_rule [of "\<lparr>messages = [HumanMessage ''Capital of France?'', AIMessage ''irrelevant'']\<rparr>"
      "[HumanMessage ''Capital of France?'']" "AIMessage ''irrelevant''"]
    decide_next_node_rule [of "\<lparr>messages = [HumanMessage ''Capital of France?'', AIMessage ''maybe?'']\<rparr>"
      "[HumanMessage ''Capital of France?'']" "AIMessage ''maybe?''"]
    decide_next_node_rule [of "\<lparr>messages = [HumanMessage ''How do I boil an egg?'']\<rparr>"
      "[]" "HumanMessage ''How do I boil an egg?''"]
  by (simp add: lower_examples)

text \<open>
  C7, as stated, fails on the state with no message: \<^verbatim>\<open>state["messages"][-1]\<close> raises
  IndexError, so the router returns no selection there.
\<close>

theorem decide_next_node_empty_state:
  "messages empty_state = []
   \<and> decide_next_node empty_state = Inl (Exn IndexError ''list index out of range'')"
  by (simp add: empty_state_def decide_next_node_def py_index_def index_error_def)

text \<open>
  C7, amended. On every state with at least one message the router returns a selection,
  \<open>researcher_agent\<close> or \<open>refusal\<close>, without failing; and it is a function of the last
  message alone: two such states with the same last message get the same selection.
\<close>

theorem decide_next_node_total_nonempty:
  assumes "messages st \<noteq> []"
  shows "(decide_next_node st = Inr ''researcher_agent'' \<or> decide_next_node st = Inr ''refusal'')
       \<and> (messages st' \<noteq> [] \<and> last (messages st') = last (messages st)
            \<longrightarrow> decide_next_node st' = decide_next_node st)"
proof -
  have dep: "decide_next_node s = decide_next_node \<lparr>messages = [last (messages s)]\<rparr>"
    if "messages s \<noteq> []" for s
  proof -
    from that obtain ms m where "messages s = ms @ [m]"
      by (cases "messages s" rule: rev_cases) auto
    then show ?thesis
      using decide_next_node_last [of s ms m] decide_next_node_last [of "\<lparr>messages = [m]\<rparr>" "[]" m]
      by simp
  qed
  have "decide_next_node \<lparr>messages = [m]\<rparr> = Inr ''researcher_agent''
      \<or> decide_next_node \<lparr>messages = [m]\<rparr> = Inr ''refusal''" for m
    using decide_next_node_last [of "\<lparr>messages = [m]\<rparr>" "[]" m]
    by (cases m) auto
  then show ?thesis
    using dep [OF assms] dep [of st'] by auto
qed

text \<open>C7, amended, at a state of two messages compared with a state of one.\<close>

theorem decide_next_node_total_nonempty_witness:
  "messages egg_state \<noteq> []
   \<and> decide_next_node egg_state = Inr ''researcher_agent''
   \<and> decide_next_node \<lparr>messages = [AIMessage ''relevant'']\<rparr> = decide_next_node egg_state"
  using decide_next_node_total_nonempty [of egg_state "\<lparr>messages = [AIMessage ''relevant'']\<rparr>"]
    decide_next_node_last [of egg_state "[HumanMessage ''How do I boil an egg?'']" "AIMessage ''relevant''"]
  by (simp add: egg_state_def lower_examples)

subsection \<open>The nodes\<close>

text \<open>
  C5. On every state the refusal node appends exactly one message, the \<open>AIMessage\<close>
  with the fixed text, causes no event at all, so no external call, and does not raise.
\<close>

theorem refusal_fixed:
  "fst (refusal st) = []
   \<and> filter is_external_call (fst (refusal st)) = []
   \<and> snd (refusal st) = Inr [AIMessage ''Your Query is not related to Cooking.'']
   \<and> add_messages (messages st) [AIMessage ''Your Query is not related to Cooking.'']
       = messages st @ [AIMessage ''Your Query is not related to Cooking.'']"
  by (simp add: refusal_def add_messages_def)

lemma researcher_agent_second_last:
  "2 \<le> length (messages st) \<Longrightarrow>
   researcher_agent e st =
     (let request = \<lparr>input = content (messages st ! (length (messages st) - 2)),
                     chat_history = ''''\<rparr>
      in ([Agent_invoke request],
          case agent_executor_researcher e request of
            Inl ex \<Rightarrow> Inl ex
          | Inr output \<Rightarrow> Inr [AIMessage output]))"
  by (simp add: researcher_agent_def py_index_second_last Let_def split: sum.splits)

text \<open>
  C4. On every state with at least two messages the research node makes one call to the
  agent executor, whose question is the content of the second-to-last message; when
  the executor returns an output, the node's update is that output as one \<open>AIMessage\<close>,
  which the reducer appends to the state.
\<close>

theorem researcher_agent_question:
  assumes "2 \<le> length (messages st)"
  shows "fst (researcher_agent e st) =
           [Agent_invoke \<lparr>input = content (messages st ! (length (messages st) - 2)),
                          chat_history = ''''\<rparr>]
       \<and> (\<forall>output.
             agent_executor_researcher e
               \<lparr>input = content (messages st ! (length (messages st) - 2)), chat_history = ''''\<rparr>
               = Inr output
             \<longrightarrow> snd (researcher_agent e st) = Inr [AIMessage output]
               \<and> add_messages (messages st) [AIMessage output] = messages st @ [AIMessage output])"
  using researcher_agent_second_last [OF assms, of e]
  by (simp add: Let_def add_messages_def)

text \<open>C4 at the state of a user question followed by the verdict \<open>relevant\<close>.\<close>

theorem researcher_agent_question_witness:
  "2 \<le> length (messages egg_state)
   \<and> researcher_agent relevant_env egg_state =
       ([Agent_invoke \<lparr>input = ''How do I boil an egg?'', chat_history = ''''\<rparr>],
        Inr [AIMessage ''Place egg in boiling water for 7 minutes.''])"
  using researcher_agent_question [of egg_state relevant_env]
  by (simp add: egg_state_def relevant_env_def prod_eq_iff)

text \<open>
  C10. Two states with at least two messages each that agree on the content of their
  second-to-last message make the research node send the same request, question and
  chat history, and give the same result, whatever their last messages are.
\<close>

theorem researcher_agent_ignores_verdict:
  assumes "2 \<le> length (messages s1)" and "2 \<le> length (messages s2)"
    and "content (messages s1 ! (length (messages s1) - 2)) =
         content (messages s2 ! (length (messages s2) - 2))"
  shows "fst (researcher_agent e s1) = fst (researcher_agent e s2)
       \<and> researcher_agent e s1 = researcher_agent e s2"
  using assms researcher_agent_second_last [of s1 e] researcher_agent_second_last [of s2 e]
  by (simp add: Let_def)

text \<open>C10 at two states with the same question and the verdicts \<open>irrelevant\<close> and \<open>relevant\<close>.\<close>

theorem researcher_agent_ignores_verdict_witness:
  "researcher_agent relevant_env
     \<lparr>messages = [HumanMessage ''How do I boil an egg?'', AIMessage ''irrelevant'']\<rparr>
   = researcher_agent relevant_env egg_state"
  using researcher_agent_ignores_verdict
    [of "\<lparr>messages = [HumanMessage ''How do I boil an egg?'', AIMessage ''irrelevant'']\<rparr>"
        egg_state relevant_env]
  by (simp add: egg_state_def)

text \<open>
  C3, as stated, fails: on a state of two messages the research node's call to the agent
  executor carries the empty string as chat history, not the two messages.
\<close>

theorem researcher_agent_empty_history:
  "messages egg_state = [HumanMessage ''How do I boil an egg?'', AIMessage ''relevant'']
   \<and> fst (researcher_agent relevant_env egg_state) =
       [Agent_invoke \<lparr>input = ''How do I boil an egg?'', chat_history = ''''\<rparr>]"
  by (simp add: egg_state_def researcher_agent_def py_index_def relevant_env_def)

text \<open>
  C3, amended. The classifier's one external call gives the language model the system
  prompt followed by the whole message list of the state, in order; the research node's
  one external call, on a state with at least two messages, gives the agent executor
  the content of the second-to-last message as question and an empty chat history.
\<close>

theorem delegated_call_inputs:
  "filter is_external_call (fst (classifier_agent e st)) =
     [LLM_invoke (SystemMessage (system_prompt_classifier e) # messages st)]
   \<and> (2 \<le> length (messages st) \<longrightarrow>
        filter is_external_call (fst (researcher_agent e st)) =
          [Agent_invoke \<lparr>input = content (messages st ! (length (messages st) - 2)),
                         chat_history = ''''\<rparr>])"
  using researcher_agent_second_last [of st e]
  by (simp add: classifier_agent_def Let_def split: sum.splits)

text \<open>C3, amended, at the state of a user question followed by the verdict.\<close>

theorem delegated_call_inputs_witness:
  "filter is_external_call (fst (classifier_agent relevant_env egg_state)) =
     [LLM_invoke [SystemMessage ''Classify the query.'',
                  HumanMessage ''How do I boil an egg?'', AIMessage ''relevant'']]
   \<and> filter is_external_call (fst (researcher_agent relevant_env egg_state)) =
       [Agent_invoke \<lparr>input = ''How do I boil an egg?'', chat_history = ''''\<rparr>]"
  using delegated_call_inputs [of relevant_env egg_state]
  by (simp add: egg_state_def relevant_env_def)

subsection \<open>The graph as built\<close>

lemma graph_nodes:
  "nodes (graph e) =
     [(''classifier_agent'', classifier_agent e), (''refusal'', refusal),
      (''researcher_agent'', researcher_agent e)]"
  by (simp add: graph_def graph_builder_def StateGraph_def add_node_def add_edge_def
      add_conditional_edges_def)

lemma graph_edges:
  "edges (graph e) =
     [(START, ''classifier_agent''), (''researcher_agent'', END), (''refusal'', END)]"
  by (simp add: graph_def graph_builder_def StateGraph_def add_node_def add_edge_def
      add_conditional_edges_def)

lemma graph_branches:
  "branches (graph e) = [(''classifier_agent'', decide_next_node, path_map)]"
  by (simp add: graph_def graph_builder_def StateGraph_def add_node_def add_edge_def
      add_conditional_edges_def)

lemma successor_START: "successor (graph e) START st = Inr ''classifier_agent''"
  by (simp add: successor_def graph_branches graph_edges START_def END_def)

lemma successor_classifier:
  "successor (graph e) ''classifier_agent'' st =
     (case decide_next_node st of
        Inl ex \<Rightarrow> Inl ex
      | Inr label \<Rightarrow>
          (case map_of path_map label of
             None \<Rightarrow> Inl (key_error label)
           | Some target \<Rightarrow> Inr target))"
  by (simp add: successor_def graph_branches)

lemma successor_researcher: "successor (graph e) ''researcher_agent'' st = Inr END"
  by (simp add: successor_def graph_branches graph_edges START_def)

lemma successor_refusal: "successor (graph e) ''refusal'' st = Inr END"
  by (simp add: successor_def graph_branches graph_edges START_def)

subsection \<open>Running the graph\<close>

lemma run_from_END: "run_from g fuel END st = \<lparr>visited = [], events = [], outcome = Inr st\<rparr>"
  by simp

lemma run_from_refusal:
  assumes "0 < fuel"
  shows "run_from (graph e) fuel ''refusal'' st =
     \<lparr>visited = [''refusal''], events = [],
      outcome = Inr (st\<lparr>messages := messages st @ [AIMessage ''Your Query is not related to Cooking.'']\<rparr>)\<rparr>"
  using assms
  by (cases fuel) (simp_all add: graph_nodes successor_refusal refusal_def add_messages_def END_def)

lemma run_from_researcher:
  assumes "0 < fuel"
  shows "run_from (graph e) fuel ''researcher_agent'' st =
     (case researcher_agent e st of
        (evs, Inl ex) \<Rightarrow> \<lparr>visited = [''researcher_agent''], events = evs, outcome = Inl ex\<rparr>
      | (evs, Inr upd) \<Rightarrow>
          \<lparr>visited = [''researcher_agent''], events = evs,
           outcome = Inr (st\<lparr>messages := messages st @ upd\<rparr>)\<rparr>)"
  using assms
  by (cases fuel) (simp_all add: graph_nodes successor_researcher add_messages_def END_def
      split: prod.splits sum.splits)

declare run_from.simps [simp del]

lemma run_from_classifier_raises:
  assumes "0 < fuel"
    and "llm e (SystemMessage (system_prompt_classifier e) # messages st) = Inl ex"
  shows "run_from (graph e) fuel ''classifier_agent'' st =
     \<lparr>visited = [''classifier_agent''],
      events = [Log_messages (SystemMessage (system_prompt_classifier e) # messages st),
                LLM_invoke (SystemMessage (system_prompt_classifier e) # messages st)],
      outcome = Inl ex\<rparr>"
  using assms
  by (cases fuel)
     (simp_all add: run_from.simps [of _ _ "''classifier_agent''"] graph_nodes
       classifier_agent_def END_def Let_def)

lemma run_from_classifier_returns:
  assumes "0 < fuel"
    and "llm e (SystemMessage (system_prompt_classifier e) # messages st) = Inr v"
  shows "run_from (graph e) fuel ''classifier_agent'' st =
     (let st' = st\<lparr>messages := messages st @ [v]\<rparr>;
          r = (if decide_next_node st' = Inr ''researcher_agent''
               then run_from (graph e) (fuel - 1) ''researcher_agent'' st'
               else run_from (graph e) (fuel - 1) ''refusal'' st')
      in r\<lparr>visited := ''classifier_agent'' # visited r,
           events := [Log_messages (SystemMessage (system_prompt_classifier e) # messages st),
                      LLM_invoke (SystemMessage (system_prompt_classifier e) # messages st),
                      Log_response v] @ events r\<rparr>)"
proof -
  have "messages (st\<lparr>messages := messages st @ [v]\<rparr>) = messages st @ [v]"
    by simp
  from decide_next_node_last [OF this]
  have "decide_next_node (st\<lparr>messages := messages st @ [v]\<rparr>) = Inr ''researcher_agent''
      \<or> decide_next_node (st\<lparr>messages := messages st @ [v]\<rparr>) = Inr ''refusal''"
    by (cases v) auto
  then show ?thesis
    using assms
    by (cases fuel)
       (auto simp: run_from.simps [of _ _ "''classifier_agent''"] graph_nodes classifier_agent_def
         END_def successor_classifier path_map_def add_messages_def Let_def)
qed

lemma invoke_graph:
  "invoke (graph e) ms = run_from (graph e) 25 ''classifier_agent'' \<lparr>messages = ms\<rparr>"
  by (simp add: invoke_def successor_START recursion_limit_def add_messages_def)

lemma invoke_llm_raises:
  assumes "llm e [SystemMessage (system_prompt_classifier e), HumanMessage q] = Inl ex"
  shows "invoke (graph e) [HumanMessage q] =
           \<lparr>visited = [''classifier_agent''],
            events = [Log_messages [SystemMessage (system_prompt_classifier e), HumanMessage q],
                      LLM_invoke [SystemMessage (system_prompt_classifier e), HumanMessage q]],
            outcome = Inl ex\<rparr>"
  using assms by (simp add: invoke_graph run_from_classifier_raises)

lemma invoke_refusal:
  assumes "llm e [SystemMessage (system_prompt_classifier e), HumanMessage q] = Inr v"
    and "decide_next_node \<lparr>messages = [HumanMessage q, v]\<rparr> \<noteq> Inr ''researcher_agent''"
  shows "invoke (graph e) [HumanMessage q] =
           \<lparr>visited = [''classifier_agent'', ''refusal''],
            events = [Log_messages [SystemMessage (system_prompt_classifier e), HumanMessage q],
                      LLM_invoke [SystemMessage (system_prompt_classifier e), HumanMessage q],
                      Log_response v],
            outcome = Inr \<lparr>messages = [HumanMessage q, v,
                                        AIMessage ''Your Query is not related to Cooking.'']\<rparr>\<rparr>"
  using assms by (simp add: invoke_graph run_from_classifier_returns run_from_refusal Let_def)

lemma invoke_research:
  assumes "llm e [SystemMessage (system_prompt_classifier e), HumanMessage q] = Inr v"
    and "decide_next_node \<lparr>messages = [HumanMessage q, v]\<rparr> = Inr ''researcher_agent''"
  shows "invoke (graph e) [HumanMessage q] =
           \<lparr>visited = [''classifier_agent'', ''researcher_agent''],
            events = [Log_messages [SystemMessage (system_prompt_classifier e), HumanMessage q],
                      LLM_invoke [SystemMessage (system_prompt_classifier e), HumanMessage q],
                      Log_response v,
                      Agent_invoke \<lparr>input = q, chat_history = ''''\<rparr>],
            outcome =
              (case agent_executor_researcher e \<lparr>input = q, chat_history = ''''\<rparr> of
                 Inl ex \<Rightarrow> Inl ex
               | Inr output \<Rightarrow> Inr \<lparr>messages = [HumanMessage q, v, AIMessage output]\<rparr>)\<rparr>"
  using assms
  by (simp add: invoke_graph run_from_classifier_returns run_from_researcher researcher_agent_def
      py_index_def Let_def split: sum.splits)

lemma decide_next_node_snoc_cases:
  "decide_next_node \<lparr>messages = ms @ [v]\<rparr> = Inr ''researcher_agent''
   \<or> decide_next_node \<lparr>messages = ms @ [v]\<rparr> = Inr ''refusal''"
  using decide_next_node_last [of "\<lparr>messages = ms @ [v]\<rparr>" ms v]
  by (cases v) auto

lemma decide_next_node_Inr_nonempty:
  "decide_next_node st = Inr label \<Longrightarrow> messages st \<noteq> []"
  by (auto simp: decide_next_node_def py_index_def)

lemma invoke_visited:
  "visited (invoke (graph e) ms) =
     (case llm e (SystemMessage (system_prompt_classifier e) # ms) of
        Inl ex \<Rightarrow> [''classifier_agent'']
      | Inr v \<Rightarrow>
          (if decide_next_node \<lparr>messages = ms @ [v]\<rparr> = Inr ''researcher_agent''
           then [''classifier_agent'', ''researcher_agent'']
           else [''classifier_agent'', ''refusal'']))"
  by (simp add: invoke_graph run_from_classifier_raises run_from_classifier_returns
      run_from_researcher run_from_refusal Let_def split: sum.splits prod.splits)

lemma invoke_llm_raises_outcome:
  "llm e (SystemMessage (system_prompt_classifier e) # ms) = Inl ex \<Longrightarrow>
   outcome (invoke (graph e) ms) = Inl ex"
  by (simp add: invoke_graph run_from_classifier_raises)

lemma static_edges_graph:
  "static_edges (graph e) =
     [(START, ''classifier_agent''), (''researcher_agent'', END), (''refusal'', END),
      (''classifier_agent'', ''researcher_agent''), (''classifier_agent'', ''refusal'')]"
  by (simp add: static_edges_def graph_edges graph_branches path_map_def)

lemma acyclic_static_edges: "acyclic (set (static_edges (graph e)))"
proof -
  define rank :: "string \<Rightarrow> nat" where
    "rank n = (if n = START then 0 else if n = ''classifier_agent'' then 1
               else if n = END then 3 else 2)" for n
  have "set (static_edges (graph e)) \<subseteq> measure rank"
    by (simp add: static_edges_graph rank_def START_def END_def)
  moreover have "acyclic (measure rank)"
    by (rule wf_acyclic) simp
  ultimately show ?thesis
    by (rule acyclic_subset [rotated])
qed

subsection \<open>Runs with concrete collaborators\<close>

lemma invoke_failing_env:
  "invoke (graph failing_env) [HumanMessage q] =
     \<lparr>visited = [''classifier_agent''],
      events = [Log_messages [SystemMessage ''Classify the query.'', HumanMessage q],
                LLM_invoke [SystemMessage ''Classify the query.'', HumanMessage q]],
      outcome = Inl (Exn UpstreamError ''Connection error.'')\<rparr>"
  using invoke_llm_raises [of failing_env q "Exn UpstreamError ''Connection error.''"]
  by (simp add: failing_env_def)

lemma invoke_irrelevant_env:
  "invoke (graph irrelevant_env) [HumanMessage q] =
     \<lparr>visited = [''classifier_agent'', ''refusal''],
      events = [Log_messages [SystemMessage ''Classify the query.'', HumanMessage q],
                LLM_invoke [SystemMessage ''Classify the query.'', HumanMessage q],
                Log_response (AIMessage ''irrelevant'')],
      outcome = Inr \<lparr>messages = [HumanMessage q, AIMessage ''irrelevant'',
                                  AIMessage ''Your Query is not related to Cooking.'']\<rparr>\<rparr>"
  using invoke_refusal [of irrelevant_env q "AIMessage ''irrelevant''"]
    decide_next_node_last [of "\<lparr>messages = [HumanMessage q, AIMessage ''irrelevant'']\<rparr>"
      "[HumanMessage q]" "AIMessage ''irrelevant''"]
  by (simp add: irrelevant_env_def lower_examples)

lemma invoke_relevant_env:
  "invoke (graph relevant_env) [HumanMessage q] =
     \<lparr>visited = [''classifier_agent'', ''researcher_agent''],
      events = [Log_messages [SystemMessage ''Classify the query.'', HumanMessage q],
                LLM_invoke [SystemMessage ''Classify the query.'', HumanMessage q],
                Log_response (AIMessage ''Relevant''),
                Agent_invoke \<lparr>input = q, chat_history = ''''\<rparr>],
      outcome = Inr \<lparr>messages = [HumanMessage q, AIMessage ''Relevant'',
                                  AIMessage ''Place egg in boiling water for 7 minutes.'']\<rparr>\<rparr>"
  using invoke_research [of relevant_env q "AIMessage ''Relevant''"]
    decide_next_node_last [of "\<lparr>messages = [HumanMessage q, AIMessage ''Relevant'']\<rparr>"
      "[HumanMessage q]" "AIMessage ''Relevant''"]
  by (simp add: relevant_env_def lower_examples)

text \<open>
  C8, amended. Every execution follows the flow START, classifier, one of research and
  refusal, END as far as it gets. The classifier is the node after START and runs
  first. Where its model call raises, the run ends at the classifier with that
  exception and neither research nor refusal runs, and this is the only way the
  classifier runs alone. Where the model call returns a verdict, exactly one of
  research and refusal runs after the classifier, the one the router selects on the
  state with the verdict appended; so an execution that completes ran exactly one of
  the two. No node ran twice, and the transitions of the graph, listed here, have no
  cycle.
\<close>

theorem invoke_flow:
  assumes "r = invoke (graph e) ms"
  shows "successor (graph e) START \<lparr>messages = ms\<rparr> = Inr ''classifier_agent''
       \<and> (visited r = [''classifier_agent'']
          \<or> visited r = [''classifier_agent'', ''researcher_agent'']
          \<or> visited r = [''classifier_agent'', ''refusal''])
       \<and> (\<forall>st. outcome r = Inr st \<longrightarrow>
             visited r = [''classifier_agent'', ''researcher_agent'']
             \<or> visited r = [''classifier_agent'', ''refusal''])
       \<and> (visited r = [''classifier_agent''] \<longrightarrow>
             (\<exists>ex. llm e (SystemMessage (system_prompt_classifier e) # ms) = Inl ex
                   \<and> outcome r = Inl ex))
       \<and> (\<forall>ex. llm e (SystemMessage (system_prompt_classifier e) # ms) = Inl ex \<longrightarrow>
             visited r = [''classifier_agent''] \<and> outcome r = Inl ex)
       \<and> (\<forall>v. llm e (SystemMessage (system_prompt_classifier e) # ms) = Inr v \<longrightarrow>
             visited r =
               (if decide_next_node \<lparr>messages = ms @ [v]\<rparr> = Inr ''researcher_agent''
                then [''classifier_agent'', ''researcher_agent'']
                else [''classifier_agent'', ''refusal'']))
       \<and> distinct (visited r)
       \<and> static_edges (graph e) =
           [(START, ''classifier_agent''), (''researcher_agent'', END), (''refusal'', END),
            (''classifier_agent'', ''researcher_agent''), (''classifier_agent'', ''refusal'')]
       \<and> acyclic (set (static_edges (graph e)))"
proof -
  have start: "successor (graph e) START \<lparr>messages = ms\<rparr> = Inr ''classifier_agent''"
    by (rule successor_START)
  have flow: "(visited r = [''classifier_agent'']
          \<or> visited r = [''classifier_agent'', ''researcher_agent'']
          \<or> visited r = [''classifier_agent'', ''refusal''])
       \<and> (\<forall>st. outcome r = Inr st \<longrightarrow>
             visited r = [''classifier_agent'', ''researcher_agent'']
             \<or> visited r = [''classifier_agent'', ''refusal''])
       \<and> (visited r = [''classifier_agent''] \<longrightarrow>
             (\<exists>ex. llm e (SystemMessage (system_prompt_classifier e) # ms) = Inl ex
                   \<and> outcome r = Inl ex))
       \<and> (\<forall>ex. llm e (SystemMessage (system_prompt_classifier e) # ms) = Inl ex \<longrightarrow>
             visited r = [''classifier_agent''] \<and> outcome r = Inl ex)
       \<and> (\<forall>v. llm e (SystemMessage (system_prompt_classifier e) # ms) = Inr v \<longrightarrow>
             visited r =
               (if decide_next_node \<lparr>messages = ms @ [v]\<rparr> = Inr ''researcher_agent''
                then [''classifier_agent'', ''researcher_agent'']
                else [''classifier_agent'', ''refusal'']))
       \<and> distinct (visited r)"
  proof (cases "llm e (SystemMessage (system_prompt_classifier e) # ms)")
    case (Inl ex)
    then show ?thesis
      using assms invoke_visited [of e ms] invoke_llm_raises_outcome [of e ms ex]
      by simp
  next
    case (Inr v)
    then show ?thesis
      using assms invoke_visited [of e ms]
      by simp
  qed
  from start flow static_edges_graph [of e] acyclic_static_edges [of e]
  show ?thesis
    by (elim conjE, intro conjI) assumption+
qed

text \<open>
  C8, amended, at a run that takes the research branch, one that takes refusal, and one
  whose model call raises.
\<close>

theorem invoke_flow_witness:
  "visited (invoke (graph relevant_env) [HumanMessage ''How do I boil an egg?'']) =
     [''classifier_agent'', ''researcher_agent'']
   \<and> visited (invoke (graph irrelevant_env) [HumanMessage ''What is the capital of France?'']) =
     [''classifier_agent'', ''refusal'']
   \<and> visited (invoke (graph failing_env) [HumanMessage ''What is the capital of France?'']) =
     [''classifier_agent'']
   \<and> outcome (invoke (graph failing_env) [HumanMessage ''What is the capital of France?'']) =
     Inl (Exn UpstreamError ''Connection error.'')"
proof -
  have raised:
    "llm failing_env
       (SystemMessage (system_prompt_classifier failing_env)
        # [HumanMessage ''What is the capital of France?''])
     = Inl (Exn UpstreamError ''Connection error.'')"
    by (simp add: failing_env_def)
  have stops:
    "visited (invoke (graph failing_env) [HumanMessage ''What is the capital of France?'']) =
       [''classifier_agent'']
     \<and> outcome (invoke (graph failing_env) [HumanMessage ''What is the capital of France?'']) =
       Inl (Exn UpstreamError ''Connection error.'')"
    using invoke_flow [OF refl, of failing_env "[HumanMessage ''What is the capital of France?'']"]
      raised
    by blast
  have verdict_irrelevant:
    "llm irrelevant_env
       (SystemMessage (system_prompt_classifier irrelevant_env)
        # [HumanMessage ''What is the capital of France?''])
     = Inr (AIMessage ''irrelevant'')"
    by (simp add: irrelevant_env_def)
  have route_refusal:
    "decide_next_node
       \<lparr>messages = [HumanMessage ''What is the capital of France?''] @ [AIMessage ''irrelevant'']\<rparr>
     \<noteq> Inr ''researcher_agent''"
    using decide_next_node_last
      [of "\<lparr>messages = [HumanMessage ''What is the capital of France?'', AIMessage ''irrelevant'']\<rparr>"
          "[HumanMessage ''What is the capital of France?'']" "AIMessage ''irrelevant''"]
    by (simp add: lower_examples)
  have "visited (invoke (graph irrelevant_env) [HumanMessage ''What is the capital of France?'']) =
      (if decide_next_node
            \<lparr>messages = [HumanMessage ''What is the capital of France?'']
                          @ [AIMessage ''irrelevant'']\<rparr>
          = Inr ''researcher_agent''
       then [''classifier_agent'', ''researcher_agent'']
       else [''classifier_agent'', ''refusal''])"
    using invoke_flow [OF refl, of irrelevant_env "[HumanMessage ''What is the capital of France?'']"]
      verdict_irrelevant
    by blast
  with route_refusal have refuses:
    "visited (invoke (graph irrelevant_env) [HumanMessage ''What is the capital of France?'']) =
       [''classifier_agent'', ''refusal'']"
    by simp
  have verdict_relevant:
    "llm relevant_env
       (SystemMessage (system_prompt_classifier relevant_env)
        # [HumanMessage ''How do I boil an egg?''])
     = Inr (AIMessage ''Relevant'')"
    by (simp add: relevant_env_def)
  have route_research:
    "decide_next_node
       \<lparr>messages = [HumanMessage ''How do I boil an egg?''] @ [AIMessage ''Relevant'']\<rparr>
     = Inr ''researcher_agent''"
    using decide_next_node_last
      [of "\<lparr>messages = [HumanMessage ''How do I boil an egg?'', AIMessage ''Relevant'']\<rparr>"
          "[HumanMessage ''How do I boil an egg?'']" "AIMessage ''Relevant''"]
    by (simp add: lower_examples)
  have "visited (invoke (graph relevant_env) [HumanMessage ''How do I boil an egg?'']) =
      (if decide_next_node
            \<lparr>messages = [HumanMessage ''How do I boil an egg?''] @ [AIMessage ''Relevant'']\<rparr>
          = Inr ''researcher_agent''
       then [''classifier_agent'', ''researcher_agent'']
       else [''classifier_agent'', ''refusal''])"
    using invoke_flow [OF refl, of relevant_env "[HumanMessage ''How do I boil an egg?'']"]
      verdict_relevant
    by blast
  with route_research have researches:
    "visited (invoke (graph relevant_env) [HumanMessage ''How do I boil an egg?'']) =
       [''classifier_agent'', ''researcher_agent'']"
    by (simp only: refl if_True)
  from researches refuses stops show ?thesis
    by (intro conjI) (elim conjE, assumption)+
qed

text \<open>
  C8, as stated, fails on an execution whose model call raises: the classifier runs and
  the run ends there, with neither research nor refusal after it.
\<close>

theorem invoke_stops_at_classifier:
  "visited (invoke (graph failing_env) [HumanMessage ''How do I boil an egg?'']) =
     [''classifier_agent'']
   \<and> outcome (invoke (graph failing_env) [HumanMessage ''How do I boil an egg?'']) =
     Inl (Exn UpstreamError ''Connection error.'')"
  by (simp add: invoke_failing_env)

subsection \<open>The final state and the endpoint\<close>

lemma invoke_outcome_Inr:
  assumes "outcome (invoke (graph e) [HumanMessage q]) = Inr st"
  shows "\<exists>verdict answer.
           llm e [SystemMessage (system_prompt_classifier e), HumanMessage q] = Inr verdict
         \<and> messages st = [HumanMessage q, verdict, AIMessage answer]
         \<and> (if decide_next_node \<lparr>messages = [HumanMessage q, verdict]\<rparr> = Inr ''researcher_agent''
             then agent_executor_researcher e \<lparr>input = q, chat_history = ''''\<rparr> = Inr answer
             else answer = ''Your Query is not related to Cooking.'')"
proof (cases "llm e [SystemMessage (system_prompt_classifier e), HumanMessage q]")
  case (Inl ex)
  then show ?thesis
    using assms invoke_llm_raises [of e q ex] by simp
next
  case (Inr v)
  show ?thesis
  proof (cases "decide_next_node \<lparr>messages = [HumanMessage q, v]\<rparr> = Inr ''researcher_agent''")
    case True
    then show ?thesis
      using assms Inr invoke_research [of e q v]
      by (auto split: sum.splits)
  next
    case False
    then show ?thesis
      using assms Inr invoke_refusal [of e q v]
      by auto
  qed
qed

text \<open>
  C2, amended. Every run on one user message that completes ends in a state of exactly
  three messages: the user message, the classifier's verdict as the language model
  returned it, and one appended \<open>AIMessage\<close>, which is the refusal text or the output
  of the agent executor.
\<close>

theorem invoke_final_state:
  assumes "outcome (invoke (graph e) [HumanMessage q]) = Inr st"
  shows "length (messages st) = 3
       \<and> (\<exists>verdict answer.
             llm e [SystemMessage (system_prompt_classifier e), HumanMessage q] = Inr verdict
           \<and> messages st = [HumanMessage q, verdict, AIMessage answer]
           \<and> (answer = ''Your Query is not related to Cooking.''
               \<or> agent_executor_researcher e \<lparr>input = q, chat_history = ''''\<rparr> = Inr answer))"
  using invoke_outcome_Inr [OF assms]
  by (auto split: if_splits)

text \<open>C2, amended, at a run that takes the research branch.\<close>

theorem invoke_final_state_witness:
  "outcome (invoke (graph relevant_env) [HumanMessage ''How do I boil an egg?'']) =
     Inr \<lparr>messages = [HumanMessage ''How do I boil an egg?'', AIMessage ''Relevant'',
                      AIMessage ''Place egg in boiling water for 7 minutes.'']\<rparr>
   \<and> length [HumanMessage ''How do I boil an egg?'', AIMessage ''Relevant'',
              AIMessage ''Place egg in boiling water for 7 minutes.''] = 3"
  using invoke_final_state [of relevant_env "''How do I boil an egg?''"
      "\<lparr>messages = [HumanMessage ''How do I boil an egg?'', AIMessage ''Relevant'',
                     AIMessage ''Place egg in boiling water for 7 minutes.'']\<rparr>"]
  by (simp add: invoke_relevant_env)

text \<open>
  C2, as stated, fails: a completed run on the refusal branch ends with three messages,
  since the classifier's verdict stays in the state.
\<close>

theorem invoke_keeps_verdict:
  "outcome (invoke (graph irrelevant_env) [HumanMessage ''What is the capital of France?'']) =
     Inr \<lparr>messages = [HumanMessage ''What is the capital of France?'',
                      AIMessage ''irrelevant'',
                      AIMessage ''Your Query is not related to Cooking.'']\<rparr>"
  by (simp add: invoke_irrelevant_env)

text \<open>
  C6. When the run completes, its final state has a last message and the handler
  returns the body \<^verbatim>\<open>{"response": c}\<close> with \<open>c\<close> that message's content, a 200
  response; when the run raises \<open>ex\<close>, the handler raises the HTTP exception with
  status 500 and detail \<open>str ex\<close>, a 500 response with body \<^verbatim>\<open>{"detail": d}\<close>. These are
  the only two results the handler's type allows, so no other exception leaves it.
\<close>

theorem post_api_cooking_response:
  "(\<forall>st. outcome (invoke (graph e) [HumanMessage q]) = Inr st \<longrightarrow>
         messages st \<noteq> []
       \<and> cooking_endpoint e q = Inr (Response_body (content (last (messages st))))
       \<and> post_api_cooking e q =
           \<lparr>status_code = 200, body = Response_body (content (last (messages st)))\<rparr>)
   \<and> (\<forall>ex. outcome (invoke (graph e) [HumanMessage q]) = Inl ex \<longrightarrow>
         cooking_endpoint e q = Inl (HTTPException 500 (str ex))
       \<and> post_api_cooking e q = \<lparr>status_code = 500, body = Detail_body (str ex)\<rparr>)"
proof (intro conjI allI impI)
  fix st
  assume ok: "outcome (invoke (graph e) [HumanMessage q]) = Inr st"
  from invoke_outcome_Inr [OF ok]
  obtain verdict answer where ms: "messages st = [HumanMessage q, verdict, AIMessage answer]"
    by blast
  then show "messages st \<noteq> []" by simp
  from ms have idx: "py_index (messages st) (- 1) = Inr (last (messages st))"
    by (simp add: py_index_def)
  with ok show endpoint: "cooking_endpoint e q = Inr (Response_body (content (last (messages st))))"
    by (simp add: cooking_endpoint_def)
  then show "post_api_cooking e q =
      \<lparr>status_code = 200, body = Response_body (content (last (messages st)))\<rparr>"
    by (simp add: post_api_cooking_def)
next
  fix ex
  assume bad: "outcome (invoke (graph e) [HumanMessage q]) = Inl ex"
  then show endpoint: "cooking_endpoint e q = Inl (HTTPException 500 (str ex))"
    by (simp add: cooking_endpoint_def)
  then show "post_api_cooking e q = \<lparr>status_code = 500, body = Detail_body (str ex)\<rparr>"
    by (simp add: post_api_cooking_def)
qed

text \<open>C6 at a research run, a refusal run, and a run whose model call raises.\<close>

theorem post_api_cooking_response_witness:
  "post_api_cooking relevant_env ''How do I boil an egg?'' =
     \<lparr>status_code = 200, body = Response_body ''Place egg in boiling water for 7 minutes.''\<rparr>
   \<and> post_api_cooking irrelevant_env ''What is the capital of France?'' =
     \<lparr>status_code = 200, body = Response_body ''Your Query is not related to Cooking.''\<rparr>
   \<and> post_api_cooking failing_env ''How do I boil an egg?'' =
     \<lparr>status_code = 500, body = Detail_body ''Connection error.''\<rparr>"
  using post_api_cooking_response [of relevant_env "''How do I boil an egg?''"]
    post_api_cooking_response [of irrelevant_env "''What is the capital of France?''"]
    post_api_cooking_response [of failing_env "''How do I boil an egg?''"]
  by (simp add: invoke_relevant_env invoke_irrelevant_env invoke_failing_env)

text \<open>
  C9. Whenever the router returns a label, the label is \<open>researcher_agent\<close> or
  \<open>refusal\<close>; these two are exactly the keys of the mapping registered with the
  conditional edge of the classifier node, so the lookup of the label succeeds and the
  branch after the classifier resolves to a node.
\<close>

theorem decide_next_node_label_mapped:
  assumes "decide_next_node st = Inr label"
  shows "label \<in> {''researcher_agent'', ''refusal''}
       \<and> set (map fst path_map) = {''researcher_agent'', ''refusal''}
       \<and> branches (graph e) = [(''classifier_agent'', decide_next_node, path_map)]
       \<and> map_of path_map label = Some label
       \<and> successor (graph e) ''classifier_agent'' st = Inr label"
proof -
  from assms have "messages st \<noteq> []"
    by (rule decide_next_node_Inr_nonempty)
  then obtain ms m where "messages st = ms @ [m]"
    by (cases "messages st" rule: rev_cases) auto
  from decide_next_node_last [OF this] assms
  have label: "label = ''researcher_agent'' \<or> label = ''refusal''"
    by (cases m) (auto split: if_splits)
  then show ?thesis
    using assms
    by (auto simp: path_map_def graph_branches successor_classifier)
qed

text \<open>C9 at the state of a user question followed by the verdict \<open>relevant\<close>.\<close>

theorem decide_next_node_label_mapped_witness:
  "decide_next_node egg_state = Inr ''researcher_agent''
   \<and> successor (graph relevant_env) ''classifier_agent'' egg_state = Inr ''researcher_agent''"
  using decide_next_node_label_mapped [of egg_state "''researcher_agent''" relevant_env]
    decide_next_node_last [of egg_state "[HumanMessage ''How do I boil an egg?'']"
      "AIMessage ''relevant''"]
  by (simp add: egg_state_def lower_examples)

end
